theory Spec2Isabelle
  imports Main "HOL-Library.AList" "HOL-Library.Sublist" "HOL-Library.Word"
begin

section \<open>Values of the configuration tree\<close>

text \<open>
  The manager stores \<^verbatim>\<open>map[string]interface{}\<close>. A value of the empty interface is one of
  the dynamic types the accessors of \<^verbatim>\<open>config.go\<close> switch on. A Go map is an association list
  here: \<open>map_of\<close> is the lookup \<^verbatim>\<open>m[k]\<close>, \<open>AList.update\<close> the assignment \<^verbatim>\<open>m[k] = v\<close>,
  \<open>AList.delete\<close> the builtin \<^verbatim>\<open>delete(m, k)\<close>, and the order of the list is the order in
  which \<^verbatim>\<open>range\<close> visits the entries. Go leaves that order open and may change it from
  one loop to the next. The order matters only where several keys of a map equal a segment
  up to case; the general properties for case-insensitive mode are stated for the maps in
  which at most one key does, and the examples that depend on the order say so.

  A key of \<^verbatim>\<open>map[interface{}]interface{}\<close> is a string, an integer of some width, a float, a
  bool or something else. The code only ever prints a key that is not a string, so a float
  key and a key of another kind carry the text that \<^verbatim>\<open>fmt\<close> prints for them.
\<close>

datatype ikey = KStr string | KInt int | KFloat string | KBool bool | KOther string

datatype val =
    VNil
  | VBool bool
  | VInt int
  | VInt64 int
  | VInt32 int
  | VFloat64 "64 word"
  | VFloat32 "32 word"
  | VStr string
  | VOther string
  | VList "val list"
  | VMap "(string \<times> val) list"
  | VIMap "(ikey \<times> val) list"

text \<open>
  \<open>VInt\<close> is Go's \<^verbatim>\<open>int\<close>, held by its value; \<open>VFloat64\<close> holds the IEEE 754 bit pattern;
  \<open>VOther\<close> is a value of any further dynamic type and carries the name \<^verbatim>\<open>%T\<close> prints.
\<close>

type_synonym tree = "(string \<times> val) list"

subsection \<open>Formatting verbs of \<^verbatim>\<open>fmt\<close>\<close>

definition digit_char :: "nat \<Rightarrow> char" where
  "digit_char d = char_of (48 + d)"

function fmt_nat :: "nat \<Rightarrow> string" where
  "fmt_nat n = (if n < 10 then [digit_char n] else fmt_nat (n div 10) @ [digit_char (n mod 10)])"
  by pat_completeness auto
termination
  by (relation "measure id") auto

declare fmt_nat.simps [simp del]

definition fmt_d :: "int \<Rightarrow> string" where
  "fmt_d i = (if i < 0 then CHR ''-'' # fmt_nat (nat (- i)) else fmt_nat (nat i))"

definition fmt_t :: "bool \<Rightarrow> string" where
  "fmt_t b = (if b then ''true'' else ''false'')"

text \<open>\<^verbatim>\<open>fmt.Sprintf("%v", k)\<close> on a map key.\<close>

fun fmt_v :: "ikey \<Rightarrow> string" where
  "fmt_v (KStr s) = s"
| "fmt_v (KInt i) = fmt_d i"
| "fmt_v (KFloat g) = g"
| "fmt_v (KBool b) = fmt_t b"
| "fmt_v (KOther s) = s"

text \<open>\<^verbatim>\<open>%T\<close>: the name of the dynamic type.\<close>

fun fmt_T :: "val \<Rightarrow> string" where
  "fmt_T VNil = ''<nil>''"
| "fmt_T (VBool b) = ''bool''"
| "fmt_T (VInt i) = ''int''"
| "fmt_T (VInt64 i) = ''int64''"
| "fmt_T (VInt32 i) = ''int32''"
| "fmt_T (VFloat64 f) = ''float64''"
| "fmt_T (VFloat32 f) = ''float32''"
| "fmt_T (VStr s) = ''string''"
| "fmt_T (VOther t) = t"
| "fmt_T (VList xs) = ''[]interface {}''"
| "fmt_T (VMap m) = ''map[string]interface {}''"
| "fmt_T (VIMap m) = ''map[interface {}]interface {}''"

section \<open>The key normalizer (\<^verbatim>\<open>utils.go\<close>, \<^verbatim>\<open>transformMapKeys\<close>)\<close>

text \<open>
  Each \<^verbatim>\<open>range\<close> loop that fills a fresh map is a \<open>fold\<close> over the entries, starting from
  the empty map. The two revisions of the function in \<^verbatim>\<open>utils.go\<close> differ in how they name the
  formatting verb (\<^verbatim>\<open>%v\<close> for every key that is not a string, or \<^verbatim>\<open>%d\<close>, \<^verbatim>\<open>%g\<close>, \<^verbatim>\<open>%t\<close>,
  \<^verbatim>\<open>%v\<close> by kind) and in whether the slice is rewritten in place or copied; both print the
  same text for a key and return the same value.
\<close>

fun transformMapKeys :: "val \<Rightarrow> val" where
  "transformMapKeys (VIMap x) =
     VMap (fold (\<lambda>(k, val) m.
             AList.update (case k of KStr key \<Rightarrow> key
                           | KInt key \<Rightarrow> fmt_d key
                           | KFloat key \<Rightarrow> key
                           | KBool key \<Rightarrow> fmt_t key
                           | KOther key \<Rightarrow> key) (transformMapKeys val) m) x [])"
| "transformMapKeys (VMap x) =
     VMap (fold (\<lambda>(k, val) m. AList.update k (transformMapKeys val) m) x [])"
| "transformMapKeys (VList x) = VList (map transformMapKeys x)"
| "transformMapKeys v = v"



section \<open>Strings, errors and the manager\<close>

text \<open>
  \<^verbatim>\<open>strings.Split(path, ".")\<close>: never empty, one more segment than there are dots. The
  last case of the inner \<open>case\<close> is never reached; it is there because HOL functions are total.
\<close>

fun split_dot :: "string \<Rightarrow> string list" where
  "split_dot [] = [[]]"
| "split_dot (c # cs) =
     (if c = CHR ''.'' then [] # split_dot cs
      else (case split_dot cs of [] \<Rightarrow> [[c]] | w # ws \<Rightarrow> (c # w) # ws))"

text \<open>
  \<^verbatim>\<open>strings.ToLower\<close> and \<^verbatim>\<open>strings.EqualFold\<close> on ASCII: the letters A to Z fold to a to z
  and every other byte is compared as it is. (Go folds the letters beyond ASCII as well; the
  keys and words the code compares against are ASCII.)
\<close>

definition lower_ascii :: "char \<Rightarrow> char" where
  "lower_ascii c =
     (case map_of (zip ''ABCDEFGHIJKLMNOPQRSTUVWXYZ'' ''abcdefghijklmnopqrstuvwxyz'') c of
        None \<Rightarrow> c
      | Some l \<Rightarrow> l)"

definition ToLower :: "string \<Rightarrow> string" where
  "ToLower s = map lower_ascii s"

definition EqualFold :: "string \<Rightarrow> string \<Rightarrow> bool" where
  "EqualFold s t = (ToLower s = ToLower t)"

text \<open>
  The errors the code builds with \<^verbatim>\<open>errors.New\<close> and \<^verbatim>\<open>fmt.Errorf\<close>, one constructor for
  each message, and the \<^verbatim>\<open>ConfigError\<close> of \<^verbatim>\<open>types.go\<close> that wraps them. \<open>External\<close> is an
  error handed over by the reader or by a decoder.
\<close>

datatype cause =
    InvalidPath
  | KeyNotFoundInPath string string
  | KeyNotAMap string string
  | KeyNotAString string string
  | KeyNotFound string
  | KeyCannotBeEmpty
  | EmptyKey
  | KeyNotFoundPlain
  | CannotConvertString string
  | CannotConvert string string
  | UnsupportedFormat string
  | UnexpectedYAML
  | FailedToConvertYAML
  | External string

datatype ConfigError = ConfigError (Operation: string) (Key: string) (Err: cause)

record Manager =
  data :: tree
  filePath :: string
  fileFormat :: string
  caseSensitive :: bool

definition FormatJSON :: string where "FormatJSON = ''json''"
definition FormatYAML :: string where "FormatYAML = ''yaml''"
definition FormatYML :: string where "FormatYML = ''yml''"

section \<open>The path resolver (\<^verbatim>\<open>utils.go\<close>, \<^verbatim>\<open>getNestedMap\<close>)\<close>

text \<open>
  The loop \<^verbatim>\<open>for k := range current { if strings.EqualFold(k, key) { key = k; break } }\<close>:
  the first key, in the order of the range, that equals the segment up to case.
\<close>

definition fold_match :: "tree \<Rightarrow> string \<Rightarrow> string option" where
  "fold_match current key = List.find (\<lambda>k. EqualFold k key) (map fst current)"

text \<open>
  The copy of a \<^verbatim>\<open>map[interface{}]interface{}\<close> into a fresh string-keyed map. The loop
  returns the error as soon as it meets a key that is not a string, so the copy exists only
  if every key is a string, whatever the order.
\<close>

fun iface_copy :: "(ikey \<times> val) list \<Rightarrow> tree \<Rightarrow> tree option" where
  "iface_copy [] nestedMap = Some nestedMap"
| "iface_copy ((KStr strKey, v) # rest) nestedMap = iface_copy rest (AList.update strKey v nestedMap)"
| "iface_copy (kv # rest) nestedMap = None"

text \<open>The two type assertions on the value found at a segment.\<close>

fun nested_of :: "val \<Rightarrow> string \<Rightarrow> string \<Rightarrow> cause + tree" where
  "nested_of (VMap nestedMap) key path = Inr nestedMap"
| "nested_of (VIMap iFaceMap) key path =
     (case iface_copy iFaceMap [] of
        None \<Rightarrow> Inl (KeyNotAString key path)
      | Some nestedMap \<Rightarrow> Inr nestedMap)"
| "nested_of val key path = Inl (KeyNotAMap key path)"

text \<open>The loop over \<^verbatim>\<open>keys[0 .. lastIndex)\<close>.\<close>

fun walk :: "bool \<Rightarrow> string \<Rightarrow> tree \<Rightarrow> string list \<Rightarrow> cause + tree" where
  "walk cs path current [] = Inr current"
| "walk cs path current (key # keys) =
     (case (if cs then Some key else fold_match current key) of
        None \<Rightarrow> Inl (KeyNotFoundInPath key path)
      | Some key \<Rightarrow>
          (case map_of current key of
             None \<Rightarrow> Inl (KeyNotFoundInPath key path)
           | Some val \<Rightarrow>
               (case nested_of val key path of
                  Inl err \<Rightarrow> Inl err
                | Inr nestedMap \<Rightarrow> walk cs path nestedMap keys)))"

text \<open>
  The matching of the last segment, which \<^verbatim>\<open>getNestedMap\<close>, \<^verbatim>\<open>Get\<close> and \<^verbatim>\<open>Delete\<close> each do
  with the same loop: the matched key, or the segment itself when nothing matches.
\<close>

definition final_key :: "bool \<Rightarrow> tree \<Rightarrow> string \<Rightarrow> string" where
  "final_key cs current lastKey =
     (if cs then lastKey
      else (case fold_match current lastKey of Some k \<Rightarrow> k | None \<Rightarrow> lastKey))"

text \<open>
  \<^verbatim>\<open>getNestedMap\<close> as documented in \<^verbatim>\<open>utils.go\<close> (the revision with the doc comments, which
  ends in \<^verbatim>\<open>return current, lastKey, nil\<close>).
\<close>

definition getNestedMap :: "tree \<Rightarrow> string \<Rightarrow> bool \<Rightarrow> cause + (tree \<times> string)" where
  "getNestedMap d path cs =
     (let keys = split_dot path in
      if length keys = 0 then Inl InvalidPath
      else
        let lastIndex = length keys - 1; lastKey = keys ! lastIndex in
        if lastIndex = 0 then Inr (d, lastKey)
        else (case walk cs path d (take lastIndex keys) of
                Inl err \<Rightarrow> Inl err
              | Inr current \<Rightarrow> Inr (current, final_key cs current lastKey)))"

text \<open>
  The other revision of \<^verbatim>\<open>getNestedMap\<close> in \<^verbatim>\<open>utils.go\<close> (no doc comments) is the same
  text up to its last line, which is \<^verbatim>\<open>return nil, "", nil\<close>: after a walk of more than one
  segment it hands back the nil map and the empty key.
\<close>

definition getNestedMap_undocumented :: "tree \<Rightarrow> string \<Rightarrow> bool \<Rightarrow> cause + (tree \<times> string)" where
  "getNestedMap_undocumented d path cs =
     (let keys = split_dot path in
      if length keys = 0 then Inl InvalidPath
      else
        let lastIndex = length keys - 1; lastKey = keys ! lastIndex in
        if lastIndex = 0 then Inr (d, lastKey)
        else (case walk cs path d (take lastIndex keys) of
                Inl err \<Rightarrow> Inl err
              | Inr current \<Rightarrow> Inr ([], [])))"

section \<open>Reading: \<^verbatim>\<open>Get\<close>, \<^verbatim>\<open>Has\<close>, \<^verbatim>\<open>GetBool\<close>\<close>

text \<open>
  \<^verbatim>\<open>Get\<close> and \<^verbatim>\<open>getNestedMap\<close> assign only into maps they have just made, so a read has a
  result and no new state.
\<close>

definition Get :: "Manager \<Rightarrow> string \<Rightarrow> ConfigError + val" where
  "Get m key =
     (if key = [] then Inr (VMap (data m))
      else (case getNestedMap (data m) key (caseSensitive m) of
              Inl err \<Rightarrow> Inl (ConfigError ''get nested map'' key err)
            | Inr (parentMap, lastKey) \<Rightarrow>
                (case map_of parentMap (final_key (caseSensitive m) parentMap lastKey) of
                   None \<Rightarrow> Inl (ConfigError ''get value'' key (KeyNotFound key))
                 | Some v \<Rightarrow> Inr v)))"

definition Has :: "Manager \<Rightarrow> string \<Rightarrow> bool" where
  "Has m key = (case Get m key of Inl err \<Rightarrow> False | Inr v \<Rightarrow> True)"

text \<open>
  \<^verbatim>\<open>v != 0\<close> on a \<^verbatim>\<open>float64\<close>: false exactly at the two zeros, whose bit patterns differ in
  the sign bit only; true on every other pattern, a NaN included.
\<close>

definition float64_nonzero :: "64 word \<Rightarrow> bool" where
  "float64_nonzero f = (take_bit 63 f \<noteq> 0)"

definition GetBool :: "Manager \<Rightarrow> string \<Rightarrow> ConfigError + bool" where
  "GetBool m key =
     (case Get m key of
        Inl err \<Rightarrow> Inl err
      | Inr val \<Rightarrow>
          (case val of
             VBool v \<Rightarrow> Inr v
           | VInt v \<Rightarrow> Inr (v \<noteq> 0)
           | VFloat64 v \<Rightarrow> Inr (float64_nonzero v)
           | VStr v \<Rightarrow>
               (let lower = ToLower v in
                if lower = ''true'' \<or> lower = ''1'' \<or> lower = ''yes'' \<or> lower = ''y''
                   \<or> lower = ''on'' then Inr True
                else if lower = ''false'' \<or> lower = ''0'' \<or> lower = ''no'' \<or> lower = ''n''
                   \<or> lower = ''off'' then Inr False
                else Inl (ConfigError ''convert'' key (CannotConvertString ''bool'')))
           | _ \<Rightarrow> Inl (ConfigError ''convert'' key (CannotConvert (fmt_T val) ''bool''))))"

section \<open>Writing: \<^verbatim>\<open>Set\<close>, \<^verbatim>\<open>Delete\<close>, \<^verbatim>\<open>MergeMap\<close>, \<^verbatim>\<open>Load\<close>\<close>

text \<open>
  A write changes a map in place. The tree is a value here, so the changed map is put back
  at its key, which is the same tree as long as no map object is reachable from two places
  of the tree (the data model has no cross-references).
\<close>

text \<open>The conversion loop of \<^verbatim>\<open>Set\<close>: a key that is not a string is printed with \<^verbatim>\<open>%v\<close>.\<close>

definition iface_stringify :: "(ikey \<times> val) list \<Rightarrow> tree" where
  "iface_stringify iFaceMap =
     fold (\<lambda>(ik, iv) nextMap.
             AList.update (case ik of KStr strKey \<Rightarrow> strKey | _ \<Rightarrow> fmt_v ik) iv nextMap)
          iFaceMap []"

text \<open>The map the loop of \<^verbatim>\<open>Set\<close> goes on with, when the segment exists.\<close>

fun set_next :: "val \<Rightarrow> tree" where
  "set_next (VMap nextMap) = nextMap"
| "set_next (VIMap iFaceMap) = iface_stringify iFaceMap"
| "set_next v = []"

fun set_walk :: "tree \<Rightarrow> string list \<Rightarrow> string \<Rightarrow> val \<Rightarrow> tree" where
  "set_walk current [] lastKey val = AList.update lastKey val current"
| "set_walk current (k # keys) lastKey val =
     (case map_of current k of
        None \<Rightarrow> AList.update k (VMap (set_walk [] keys lastKey val)) current
      | Some v \<Rightarrow> AList.update k (VMap (set_walk (set_next v) keys lastKey val)) current)"


text \<open>
  \<^verbatim>\<open>Delete\<close> removes the key from the map that \<^verbatim>\<open>getNestedMap\<close> returned. That map is a
  map of the tree when the last step of the walk went through a string-keyed map, and then
  the tree changes. When the last step went through a \<^verbatim>\<open>map[interface{}]interface{}\<close> the
  returned map is the fresh copy, the removal happens in the copy, and the tree keeps the
  entry. The values of a copy are the values of the original, so a walk that goes on below a
  copy reaches the tree again: \<open>del_in\<close> puts the changed value back under its key.
\<close>

fun del_walk :: "bool \<Rightarrow> tree \<Rightarrow> string list \<Rightarrow> string \<Rightarrow> tree"
  and del_in :: "bool \<Rightarrow> val \<Rightarrow> string list \<Rightarrow> string \<Rightarrow> val" where
  "del_walk cs current [] lastKey = AList.delete lastKey current"
| "del_walk cs current (key # keys) lastKey =
     (case (if cs then Some key else fold_match current key) of
        None \<Rightarrow> current
      | Some key \<Rightarrow>
          (case map_of current key of
             None \<Rightarrow> current
           | Some val \<Rightarrow> AList.update key (del_in cs val keys lastKey) current))"
| "del_in cs (VMap nestedMap) keys lastKey = VMap (del_walk cs nestedMap keys lastKey)"
| "del_in cs (VIMap iFaceMap) [] lastKey = VIMap iFaceMap"
| "del_in cs (VIMap iFaceMap) (key # keys) lastKey =
     (case iface_copy iFaceMap [] of
        None \<Rightarrow> VIMap iFaceMap
      | Some nestedMap \<Rightarrow>
          (case (if cs then Some key else fold_match nestedMap key) of
             None \<Rightarrow> VIMap iFaceMap
           | Some key \<Rightarrow>
               (case map_of nestedMap key of
                  None \<Rightarrow> VIMap iFaceMap
                | Some val \<Rightarrow>
                    VIMap (AList.update (KStr key) (del_in cs val keys lastKey) iFaceMap))))"
| "del_in cs val keys lastKey = val"

definition Delete :: "Manager \<Rightarrow> string \<Rightarrow> ConfigError option \<times> Manager" where
  "Delete m key =
     (if key = [] then (Some (ConfigError ''delete'' key EmptyKey), m)
      else (case getNestedMap (data m) key (caseSensitive m) of
              Inl err \<Rightarrow> (Some (ConfigError ''delete'' key err), m)
            | Inr (parentMap, lastKey) \<Rightarrow>
                (let lastKey = final_key (caseSensitive m) parentMap lastKey in
                 case map_of parentMap lastKey of
                   None \<Rightarrow> (Some (ConfigError ''delete'' key KeyNotFoundPlain), m)
                 | Some v \<Rightarrow>
                     (None, m\<lparr>data := del_walk (caseSensitive m) (data m)
                                         (butlast (split_dot key)) lastKey\<rparr>))))"

text \<open>One round of the loop of \<^verbatim>\<open>MergeMap\<close>, and the loop.\<close>

definition merge_entry :: "string \<times> val \<Rightarrow> tree \<Rightarrow> tree" where
  "merge_entry kv d =
     (case kv of (k, v) \<Rightarrow>
        (case map_of d k of
           Some (VMap existingMap) \<Rightarrow>
             (case v of
                VMap newMap \<Rightarrow>
                  AList.update k
                    (VMap (fold (\<lambda>(nk, nv) em. AList.update nk nv em) newMap existingMap)) d
              | _ \<Rightarrow> AList.update k v d)
         | _ \<Rightarrow> AList.update k v d))"

definition MergeMap :: "Manager \<Rightarrow> tree \<Rightarrow> Manager" where
  "MergeMap m dat = m\<lparr>data := fold merge_entry dat (data m)\<rparr>"

text \<open>
  \<^verbatim>\<open>Load\<close>. The reader and the two decoders are not code of this repository: the result of
  \<^verbatim>\<open>io.ReadAll\<close> is an argument, \<open>junm content d\<close> stands for \<^verbatim>\<open>json.Unmarshal(content, &m.data)\<close>
  with \<open>d\<close> the map the manager holds at the call, and \<open>yunm content\<close> for
  \<^verbatim>\<open>yaml.Unmarshal(content, &data)\<close> into a fresh \<^verbatim>\<open>interface{}\<close>.
\<close>

definition Load ::
  "(string \<Rightarrow> tree \<Rightarrow> string option \<times> tree) \<Rightarrow> (string \<Rightarrow> string + val) \<Rightarrow>
   Manager \<Rightarrow> string + string \<Rightarrow> string \<Rightarrow> ConfigError option \<times> Manager" where
  "Load junm yunm m r format =
     (case r of
        Inl e \<Rightarrow> (Some (ConfigError ''read file content'' [] (External e)), m)
      | Inr content \<Rightarrow>
          (let (err, m') =
             (if format = FormatJSON then
                (case junm content (data m) of (e, d) \<Rightarrow> (map_option External e, m\<lparr>data := d\<rparr>))
              else if format = FormatYAML \<or> format = FormatYML then
                (case yunm content of
                   Inl e \<Rightarrow> (Some (External e), m)
                 | Inr dat \<Rightarrow>
                     (case dat of
                        VMap mapData \<Rightarrow> (None, m\<lparr>data := mapData\<rparr>)
                      | VIMap mapData \<Rightarrow>
                          (case transformMapKeys (VIMap mapData) of
                             VMap strMap \<Rightarrow> (None, m\<lparr>data := strMap\<rparr>)
                           | _ \<Rightarrow> (Some FailedToConvertYAML, m))
                      | _ \<Rightarrow> (Some UnexpectedYAML, m)))
              else (Some (UnsupportedFormat format), m))
           in case err of
                Some e \<Rightarrow> (Some (ConfigError ''parse'' [] e), m')
              | None \<Rightarrow> (None, m'\<lparr>fileFormat := format\<rparr>)))"

section \<open>Notions used in the statements\<close>

text \<open>The words \<^verbatim>\<open>GetBool\<close> reads as true and as false, after \<^verbatim>\<open>strings.ToLower\<close>.\<close>

definition true_words :: "string list" where
  "true_words = [''true'', ''1'', ''yes'', ''y'', ''on'']"

definition false_words :: "string list" where
  "false_words = [''false'', ''0'', ''no'', ''n'', ''off'']"

text \<open>Every key of a \<^verbatim>\<open>map[interface{}]interface{}\<close> is a string.\<close>

definition string_keys :: "(ikey \<times> val) list \<Rightarrow> bool" where
  "string_keys iFaceMap = list_all (\<lambda>(k, v). case k of KStr s \<Rightarrow> True | _ \<Rightarrow> False) iFaceMap"



text \<open>
  Two decoders for the examples: a JSON decoder that rejects its input and leaves the map
  alone, and a YAML decoder that knows two documents.
\<close>

definition reject_json :: "string \<Rightarrow> tree \<Rightarrow> string option \<times> tree" where
  "reject_json content d = (Some ''invalid character'', d)"

definition yaml_examples :: "string \<Rightarrow> string + val" where
  "yaml_examples content =
     (if content = ''a: {true: x}'' then Inr (VMap [(''a'', VIMap [(KBool True, VStr ''x'')])])
      else if content = ''{1: x, a: 2}''
        then Inr (VIMap [(KInt 1, VStr ''x''), (KStr ''a'', VInt 2)])
      else Inl ''not one of the examples'')"

section \<open>Properties\<close>

subsection \<open>Filling a map in a loop\<close>






subsection \<open>The normalizer yields canonical values and fixes them\<close>





subsection \<open>Reading\<close>

lemmas resolver_defs = Get_def getNestedMap_def final_key_def fold_match_def EqualFold_def
  ToLower_def lower_ascii_def Let_def

text \<open>
  C3. On the tree \<^verbatim>\<open>{"a": {"b": 1}}\<close>, \<^verbatim>\<open>Get("A.B")\<close> and \<^verbatim>\<open>Get("a.b")\<close> return the same
  value when case sensitivity is off; when it is on, \<^verbatim>\<open>Get("a.b")\<close> returns the value and
  \<^verbatim>\<open>Get("A.B")\<close> fails with the error that the key \<^verbatim>\<open>A\<close> is not found in the path.
\<close>

theorem C3_case_modes:
  "Get \<lparr>data = [(''a'', VMap [(''b'', VInt 1)])], filePath = fp, fileFormat = ff,
        caseSensitive = False\<rparr> ''A.B'' = Inr (VInt 1)
   \<and> Get \<lparr>data = [(''a'', VMap [(''b'', VInt 1)])], filePath = fp, fileFormat = ff,
          caseSensitive = False\<rparr> ''a.b'' = Inr (VInt 1)
   \<and> Get \<lparr>data = [(''a'', VMap [(''b'', VInt 1)])], filePath = fp, fileFormat = ff,
          caseSensitive = True\<rparr> ''a.b'' = Inr (VInt 1)
   \<and> Get \<lparr>data = [(''a'', VMap [(''b'', VInt 1)])], filePath = fp, fileFormat = ff,
          caseSensitive = True\<rparr> ''A.B''
       = Inl (ConfigError ''get nested map'' ''A.B'' (KeyNotFoundInPath ''A'' ''A.B''))"
  by (simp add: resolver_defs)

text \<open>
  The revision of \<^verbatim>\<open>getNestedMap\<close> without doc comments gives every caller the nil map and
  the empty key once the path has more than one segment, so with it no value below the top
  level is ever found. The properties of this theory are those of the documented revision.
\<close>

lemma getNestedMap_undocumented_multi:
  "getNestedMap_undocumented d path cs = Inr (p, k) \<Longrightarrow> 1 < length (split_dot path) \<Longrightarrow>
   p = [] \<and> k = []"
  by (auto simp: getNestedMap_undocumented_def Let_def split: if_splits sum.splits)

text \<open>
  C10. \<^verbatim>\<open>Has(key)\<close> is true exactly when \<^verbatim>\<open>Get(key)\<close> on the same manager returns without
  error. \<^verbatim>\<open>Has\<close> has no effect on the manager: it only calls \<^verbatim>\<open>Get\<close>, which writes to no map
  of the tree, so the model of \<^verbatim>\<open>Has\<close> returns a truth value and no state.
\<close>

theorem C10_has_iff_get: "Has m key \<longleftrightarrow> (\<exists>v. Get m key = Inr v)"
  by (cases "Get m key") (simp_all add: Has_def)

text \<open>
  C4, as amended. On a resolved value \<^verbatim>\<open>GetBool\<close> is the identity on a bool, \<^verbatim>\<open>v != 0\<close> on
  an \<^verbatim>\<open>int\<close> and on a \<^verbatim>\<open>float64\<close>, true and false on the two lists of words compared
  after lower-casing, a conversion error on any other string, and a conversion error on
  every other dynamic type, the numeric types \<^verbatim>\<open>int64\<close>, \<^verbatim>\<open>int32\<close> and \<^verbatim>\<open>float32\<close> included.
\<close>

theorem C4_GetBool_table:
  assumes "Get m key = Inr val"
  shows "(val = VBool b \<longrightarrow> GetBool m key = Inr b)
       \<and> (val = VInt i \<longrightarrow> GetBool m key = Inr (i \<noteq> 0))
       \<and> (val = VFloat64 f \<longrightarrow> GetBool m key = Inr (float64_nonzero f))
       \<and> (val = VStr s \<and> ToLower s \<in> set true_words \<longrightarrow> GetBool m key = Inr True)
       \<and> (val = VStr s \<and> ToLower s \<in> set false_words \<longrightarrow> GetBool m key = Inr False)
       \<and> (val = VStr s \<and> ToLower s \<notin> set true_words \<and> ToLower s \<notin> set false_words \<longrightarrow>
            GetBool m key = Inl (ConfigError ''convert'' key (CannotConvertString ''bool'')))
       \<and> ((\<forall>b. val \<noteq> VBool b) \<and> (\<forall>i. val \<noteq> VInt i) \<and> (\<forall>f. val \<noteq> VFloat64 f)
            \<and> (\<forall>s. val \<noteq> VStr s) \<longrightarrow>
            GetBool m key = Inl (ConfigError ''convert'' key (CannotConvert (fmt_T val) ''bool'')))"
  using assms by (cases val) (auto simp: GetBool_def true_words_def false_words_def Let_def)

text \<open>The stored strings \<^verbatim>\<open>"YES"\<close> and \<^verbatim>\<open>"maybe"\<close>.\<close>

theorem C4_GetBool_table_witness:
  "GetBool \<lparr>data = [(''k'', VStr ''YES'')], filePath = [], fileFormat = [],
            caseSensitive = True\<rparr> ''k'' = Inr True
   \<and> GetBool \<lparr>data = [(''k'', VStr ''maybe'')], filePath = [], fileFormat = [],
              caseSensitive = True\<rparr> ''k''
       = Inl (ConfigError ''convert'' ''k'' (CannotConvertString ''bool''))"
proof -
  let ?m = "\<lambda>v. \<lparr>data = [(''k'', v)], filePath = [], fileFormat = [], caseSensitive = True\<rparr>"
  have g: "Get (?m v) ''k'' = Inr v" for v by (simp add: resolver_defs)
  have y: "ToLower ''YES'' \<in> set true_words"
    by (simp add: ToLower_def lower_ascii_def true_words_def)
  have n: "ToLower ''maybe'' \<notin> set true_words \<and> ToLower ''maybe'' \<notin> set false_words"
    by (simp add: ToLower_def lower_ascii_def true_words_def false_words_def)
  show ?thesis
    using C4_GetBool_table[OF g, of "VStr ''YES''" _ _ _ "''YES''"]
      C4_GetBool_table[OF g, of "VStr ''maybe''" _ _ _ "''maybe''"] y n
    by simp
qed

text \<open>
  A stored \<^verbatim>\<open>int64(1)\<close> is a numeric value that is not zero, and \<^verbatim>\<open>GetBool\<close> does not return
  true on it: the type switch has no case for \<^verbatim>\<open>int64\<close>.
\<close>

theorem C4_int64_counterexample:
  "Get \<lparr>data = [(''k'', VInt64 1)], filePath = [], fileFormat = [], caseSensitive = True\<rparr> ''k''
     = Inr (VInt64 1)
   \<and> GetBool \<lparr>data = [(''k'', VInt64 1)], filePath = [], fileFormat = [],
              caseSensitive = True\<rparr> ''k''
       = Inl (ConfigError ''convert'' ''k'' (CannotConvert ''int64'' ''bool''))"
  by (simp add: GetBool_def resolver_defs)

subsection \<open>Loading\<close>

text \<open>
  C8. \<^verbatim>\<open>Load\<close> with a format that is none of \<^verbatim>\<open>json\<close>, \<^verbatim>\<open>yaml\<close>, \<^verbatim>\<open>yml\<close> fails and leaves the
  manager, its tree and its format tag included, as it was; once the content has been read,
  the error is the one of the unsupported format.
\<close>

theorem C8_unknown_format:
  assumes "format \<noteq> FormatJSON" and "format \<noteq> FormatYAML" and "format \<noteq> FormatYML"
  shows "Load junm yunm m (Inr content) format
           = (Some (ConfigError ''parse'' [] (UnsupportedFormat format)), m)
         \<and> (\<exists>e. Load junm yunm m r format = (Some e, m))"
  using assms by (cases r) (simp_all add: Load_def)

theorem C8_unknown_format_witness:
  "Load reject_json yaml_examples
        \<lparr>data = [(''old'', VInt 1)], filePath = [], fileFormat = ''json'', caseSensitive = True\<rparr>
        (Inr ''invalid content'') ''invalid''
     = (Some (ConfigError ''parse'' [] (UnsupportedFormat ''invalid'')),
        \<lparr>data = [(''old'', VInt 1)], filePath = [], fileFormat = ''json'', caseSensitive = True\<rparr>)"
  using C8_unknown_format[of "''invalid''" reject_json yaml_examples
      "\<lparr>data = [(''old'', VInt 1)], filePath = [], fileFormat = ''json'', caseSensitive = True\<rparr>"
      "''invalid content''" "Inr ''invalid content''"]
  by (simp add: FormatJSON_def FormatYAML_def FormatYML_def)




subsection \<open>A foreign-keyed mapping in the middle of a path\<close>

lemma iface_copy_fold:
  "iface_copy im acc =
     (if string_keys im
      then Some (fold (\<lambda>(ik, iv) nextMap.
                   AList.update (case ik of KStr strKey \<Rightarrow> strKey | _ \<Rightarrow> fmt_v ik) iv nextMap) im acc)
      else None)"
  by (induction im acc rule: iface_copy.induct) (simp_all add: string_keys_def)

lemma iface_copy_stringify:
  "iface_copy im [] = (if string_keys im then Some (iface_stringify im) else None)"
  by (simp add: iface_copy_fold iface_stringify_def)

lemma fmt_v_case: "(case ik of KStr strKey \<Rightarrow> strKey | _ \<Rightarrow> fmt_v ik) = fmt_v ik"
  by (cases ik) simp_all

lemma fold_update_keys:
  "fst ` set (fold (\<lambda>(k, v) m. AList.update (g k) v m) x acc) = fst ` set acc \<union> g ` fst ` set x"
proof (induction x arbitrary: acc)
  case Nil
  then show ?case by simp
next
  case (Cons a x)
  obtain k v where a: "a = (k, v)" by (cases a)
  show ?case by (simp add: a Cons.IH dom_update)
qed

lemma fold_update_entries:
  "set (fold (\<lambda>(k, v) m. AList.update (g k) v m) x acc) \<subseteq> set acc \<union> (\<lambda>(k, v). (g k, v)) ` set x"
proof (induction x arbitrary: acc)
  case Nil
  then show ?case by simp
next
  case (Cons a x)
  obtain k v where a: "a = (k, v)" by (cases a)
  have "set (AList.update (g k) v acc) \<subseteq> insert (g k, v) (set acc)"
    by (induction acc) auto
  then show ?case using Cons.IH[of "AList.update (g k) v acc"] by (auto simp: a)
qed

lemma iface_stringify_keys: "fst ` set (iface_stringify im) = fmt_v ` fst ` set im"
  using fold_update_keys[of fmt_v im "[]"] by (simp add: iface_stringify_def fmt_v_case)

lemma iface_stringify_entries: "set (iface_stringify im) \<subseteq> (\<lambda>(k, v). (fmt_v k, v)) ` set im"
  using fold_update_entries[of fmt_v im "[]"] by (simp add: iface_stringify_def fmt_v_case)

text \<open>
  C2, as amended. When the walk of \<^verbatim>\<open>getNestedMap\<close> finds a foreign-keyed mapping at a
  segment that is not the last one, it goes on in a string-keyed copy if every top-level key
  of the mapping is a string, and fails with the error that the key is not a string if one
  of them is not. The walk of \<^verbatim>\<open>Set\<close> prints every top-level key that is not a string with
  \<^verbatim>\<open>%v\<close>, stores the converted mapping in the tree and goes on. In both, the keys of the
  converted mapping are the printed keys, and each of its entries holds a value of the
  original, untouched.
\<close>

theorem C2_foreign_mid_path:
  assumes "(if cs then Some seg else fold_match current seg) = Some key"
    and "map_of current key = Some (VIMap iFaceMap)"
  shows "walk cs path current (seg # keys) =
           (if string_keys iFaceMap then walk cs path (iface_stringify iFaceMap) keys
            else Inl (KeyNotAString key path))
         \<and> (key = seg \<longrightarrow>
              set_walk current (seg # keys) lastKey v =
                AList.update seg (VMap (set_walk (iface_stringify iFaceMap) keys lastKey v)) current)
         \<and> fst ` set (iface_stringify iFaceMap) = fmt_v ` fst ` set iFaceMap
         \<and> set (iface_stringify iFaceMap) \<subseteq> (\<lambda>(k, v). (fmt_v k, v)) ` set iFaceMap"
  using assms by (auto simp: iface_copy_stringify iface_stringify_keys dest: set_mp[OF iface_stringify_entries])

theorem C2_foreign_mid_path_witness:
  "walk True ''a.b.c'' [(''a'', VIMap [(KStr ''b'', VMap [(''c'', VInt 2)])])] [''a'', ''b'']
     = Inr [(''c'', VInt 2)]
   \<and> walk True ''a.1'' [(''a'', VIMap [(KInt 1, VInt 2)])] [''a'', ''1'']
     = Inl (KeyNotAString ''a'' ''a.1'')
   \<and> set_walk [(''a'', VIMap [(KInt 1, VInt 2)])] [''a''] ''1'' (VInt 3)
     = [(''a'', VMap [(''1'', VInt 3)])]"
  using C2_foreign_mid_path[of True "''a''" "[(''a'', VIMap [(KStr ''b'', VMap [(''c'', VInt 2)])])]"
          "''a''" "[(KStr ''b'', VMap [(''c'', VInt 2)])]" "''a.b.c''" "[''b'']"]
        C2_foreign_mid_path[of True "''a''" "[(''a'', VIMap [(KInt 1, VInt 2)])]"
          "''a''" "[(KInt 1, VInt 2)]" "''a.1''" "[''1'']"]
        C2_foreign_mid_path[of True "''a''" "[(''a'', VIMap [(KInt 1, VInt 2)])]"
          "''a''" "[(KInt 1, VInt 2)]" "''a.1''" "[]" "''1''" "VInt 3"]
  apply (simp add: string_keys_def iface_stringify_def)
  apply code_simp
  done

text \<open>
  A mapping with the keys \<^verbatim>\<open>1\<close> (an integer) and \<^verbatim>\<open>"b"\<close>, in either order of the range:
  \<^verbatim>\<open>Get("a.b")\<close> fails because the mapping has a key that is not a string.
\<close>

theorem C2_counterexample:
  "Get \<lparr>data = [(''a'', VIMap [(KInt 1, VStr ''x''), (KStr ''b'', VInt 2)])], filePath = [],
        fileFormat = [], caseSensitive = True\<rparr> ''a.b''
     = Inl (ConfigError ''get nested map'' ''a.b'' (KeyNotAString ''a'' ''a.b''))
   \<and> Get \<lparr>data = [(''a'', VIMap [(KStr ''b'', VInt 2), (KInt 1, VStr ''x'')])], filePath = [],
          fileFormat = [], caseSensitive = True\<rparr> ''a.b''
     = Inl (ConfigError ''get nested map'' ''a.b'' (KeyNotAString ''a'' ''a.b''))"
  by (simp add: resolver_defs)

subsection \<open>Merging\<close>










text \<open>
  A foreign-keyed mapping in the second tree is not a string-keyed mapping: it replaces the
  manager's mapping and is not merged into it.
\<close>

lemma MergeMap_foreign_value_replaces:
  "data (MergeMap \<lparr>data = [(''a'', VMap [(''x'', VInt 1)])], filePath = fp, fileFormat = ff,
                   caseSensitive = c\<rparr> [(''a'', VIMap [(KStr ''y'', VInt 2)])])
     = [(''a'', VIMap [(KStr ''y'', VInt 2)])]"
  by (simp add: MergeMap_def merge_entry_def)

subsection \<open>Writing a leaf and reading it back\<close>











subsection \<open>Deleting\<close>























text \<open>
  When the parent is the copy of a foreign-keyed mapping, \<^verbatim>\<open>Delete\<close> reports success and the
  entry stays in the tree: the removal happened in the copy.
\<close>

lemma Delete_in_copy_is_lost:
  "Delete \<lparr>data = [(''a'', VIMap [(KStr ''b'', VInt 1)])], filePath = [], fileFormat = [],
            caseSensitive = True\<rparr> ''a.b''
     = (None, \<lparr>data = [(''a'', VIMap [(KStr ''b'', VInt 1)])], filePath = [], fileFormat = [],
                caseSensitive = True\<rparr>)
   \<and> Get \<lparr>data = [(''a'', VIMap [(KStr ''b'', VInt 1)])], filePath = [], fileFormat = [],
          caseSensitive = True\<rparr> ''a.b'' = Inr (VInt 1)"
  by (simp add: Delete_def resolver_defs)

end
